theory Spec2Isabelle
  imports Complex_Main
begin

section \<open>The AIMon evaluation notebook\<close>

subsection \<open>Collecting documents from transcripts\<close>

text \<open>
  \<^verbatim>\<open>
  def extract_and_create_documents(transcripts):
      documents = []
      for transcript in transcripts:
          try:
              doc = Document(text=transcript)
              documents.append(doc)
          except Exception as e:
              print(f"Failed to create document")
      return documents
  \<close>
  The constructor \<open>Document\<close> belongs to the library and is a parameter here: it
  either returns a document (\<open>Inr\<close>) or raises an exception (\<open>Inl\<close>). The state of
  the loop is the list \<open>documents\<close> and the lines printed so far.
\<close>

fun extract_loop ::
  "('t \<Rightarrow> 'e + 'd) \<Rightarrow> 't list \<Rightarrow> 'd list \<Rightarrow> string list \<Rightarrow> 'd list \<times> string list" where
  "extract_loop Document [] documents printed = (documents, printed)"
| "extract_loop Document (transcript # rest) documents printed =
     (case Document transcript of
        Inr doc \<Rightarrow> extract_loop Document rest (documents @ [doc]) printed
      | Inl e \<Rightarrow> extract_loop Document rest documents (printed @ [''Failed to create document'']))"

definition extract_and_create_documents ::
  "('t \<Rightarrow> 'e + 'd) \<Rightarrow> 't list \<Rightarrow> 'd list \<times> string list" where
  "extract_and_create_documents Document transcripts = extract_loop Document transcripts [] []"

text \<open>
  What the description of the function promises, written independently of the loop: the
  documents of the transcripts whose construction succeeds, in the order of the input,
  and the transcripts whose construction raises.
\<close>

definition constructed_documents :: "('t \<Rightarrow> 'e + 'd) \<Rightarrow> 't list \<Rightarrow> 'd list" where
  "constructed_documents Document transcripts =
     concat (map (\<lambda>t. case Document t of Inr doc \<Rightarrow> [doc] | Inl e \<Rightarrow> []) transcripts)"

definition failed_transcripts :: "('t \<Rightarrow> 'e + 'd) \<Rightarrow> 't list \<Rightarrow> 't list" where
  "failed_transcripts Document transcripts =
     filter (\<lambda>t. case Document t of Inr doc \<Rightarrow> False | Inl e \<Rightarrow> True) transcripts"

subsection \<open>The language model object and its system prompt\<close>

text \<open>
  \<^verbatim>\<open>
  llm = OpenAI(model="gpt-4o-mini", temperature=0.4, system_prompt="""...""")
  user_instructions = ["Keep the response concise, preferably under the 100 word limit."]
  llm.system_prompt += (
      f"Please comply to the following instructions {user_instructions}."
  )
  llm_response = get_response(user_query, retriever, llm)
  \<close>
  The object carries the three fields the notebook sets. The f-string formats the list
  with Python's \<open>str\<close> of a list: the \<open>repr\<close> of each element, separated by a comma and
  a space, in square brackets. The built-in \<open>repr\<close> of a string is a parameter.
\<close>

record openai_llm =
  model :: string
  temperature :: real
  system_prompt :: string

fun join_str :: "string \<Rightarrow> string list \<Rightarrow> string" where
  "join_str sep [] = []"
| "join_str sep [x] = x"
| "join_str sep (x # y # ys) = x @ sep @ join_str sep (y # ys)"

definition py_list_str :: "(string \<Rightarrow> string) \<Rightarrow> string list \<Rightarrow> string" where
  "py_list_str repr xs = ''['' @ join_str '', '' (map repr xs) @ '']''"

definition format_instructions :: "(string \<Rightarrow> string) \<Rightarrow> string list \<Rightarrow> string" where
  "format_instructions repr user_instructions =
     ''Please comply to the following instructions '' @ py_list_str repr user_instructions @ ''.''"

text \<open>
  The notebook's variables that the two cells read and write. \<open>get_response\<close> comes from
  the AIMon package and is a parameter: it receives the query, the retriever and the
  language model object.
\<close>

record ('r, 'a) notebook =
  llm :: openai_llm
  retriever :: 'r
  llm_response :: "'a option"

definition update_system_prompt ::
  "(string \<Rightarrow> string) \<Rightarrow> string list \<Rightarrow> ('r, 'a) notebook \<Rightarrow> ('r, 'a) notebook" where
  "update_system_prompt repr user_instructions nb =
     nb\<lparr>llm := (llm nb)\<lparr>system_prompt :=
             system_prompt (llm nb) @ format_instructions repr user_instructions\<rparr>\<rparr>"

definition get_response_cell ::
  "(string \<Rightarrow> 'r \<Rightarrow> openai_llm \<Rightarrow> 'a) \<Rightarrow> string \<Rightarrow> ('r, 'a) notebook \<Rightarrow> ('r, 'a) notebook" where
  "get_response_cell get_response user_query nb =
     nb\<lparr>llm_response := Some (get_response user_query (retriever nb) (llm nb))\<rparr>"

definition run_queries ::
  "(string \<Rightarrow> 'r \<Rightarrow> openai_llm \<Rightarrow> 'a) \<Rightarrow> string list \<Rightarrow> ('r, 'a) notebook \<Rightarrow> ('r, 'a) notebook" where
  "run_queries get_response queries nb =
     foldl (\<lambda>s q. get_response_cell get_response q s) nb queries"

text \<open>The \<open>repr\<close> of a string without quotes, backslashes or control characters.\<close>

definition repr_plain :: "string \<Rightarrow> string" where
  "repr_plain s = [CHR 0x27] @ s @ [CHR 0x27]"

section \<open>The retriever over the document store\<close>

text \<open>
  The notebooks only call the retriever (\<open>build_retriever(index, similarity_top_k=5)\<close>,
  \<open>index.as_query_engine().query(...)\<close>); the store and the retrieval behind these calls
  are not among the notebook sources. They are modelled here from their description.
\<close>

text \<open>Modelled from the spec: the error taxonomy of section 7; no error type is in the sources.\<close>

datatype error =
  EmbeddingFailure | EmptyStoreError | GenerationFailure
  | InvalidInputError | EvaluationUnavailable | ProviderTimeout

type_synonym vector = "real list"

text \<open>
  Modelled from the spec: the data model of section 3, \<open>Unit: { id, text, embedding
  (optional vector of floats) }\<close> and \<open>Query: { text, embedding (optional) }\<close>; the
  sources declare neither. Floats are read as real numbers.
\<close>

record store_unit =
  unit_id :: nat
  unit_text :: string
  unit_embedding :: "vector option"

record query =
  query_text :: string
  query_embedding :: "vector option"

text \<open>
  Modelled from the spec: \<open>RetrievalResult\<close>, an ordered sequence of (Unit, similarity
  score), and the append-only \<open>DocumentStore\<close> of section 4.1, which holds its units in
  the order of ingestion; neither is in the sources.
\<close>

type_synonym retrieval_result = "(store_unit \<times> real) list"

record document_store =
  units :: "store_unit list"

definition empty_store :: document_store where
  "empty_store = \<lparr>units = []\<rparr>"

text \<open>
  Modelled from the spec: \<open>ingest(text) -> Unit\<close> of section 4.1, missing from the
  sources. It assigns a stable id (here the number of units ingested before), computes
  the embedding with the external provider, and fails with \<open>EmbeddingFailure\<close> if the
  provider errors (\<open>None\<close>) or returns a vector of another dimension.
\<close>

definition ingest ::
  "(string \<Rightarrow> vector option) \<Rightarrow> nat \<Rightarrow> document_store \<Rightarrow> string
     \<Rightarrow> error + (store_unit \<times> document_store)" where
  "ingest embedder dimension store doc_text =
     (case embedder doc_text of
        None \<Rightarrow> Inl EmbeddingFailure
      | Some v \<Rightarrow>
          if length v \<noteq> dimension then Inl EmbeddingFailure
          else (let u = \<lparr>unit_id = length (units store), unit_text = doc_text,
                          unit_embedding = Some v\<rparr>
                in Inr (u, store\<lparr>units := units store @ [u]\<rparr>)))"

text \<open>
  Modelled from the spec: ingesting a sequence of documents one after the other
  (single writer, append-only), stopping at the first failure.
\<close>

fun ingest_all ::
  "(string \<Rightarrow> vector option) \<Rightarrow> nat \<Rightarrow> document_store \<Rightarrow> string list
     \<Rightarrow> error + document_store" where
  "ingest_all embedder dimension store [] = Inr store"
| "ingest_all embedder dimension store (doc_text # rest) =
     (case ingest embedder dimension store doc_text of
        Inl e \<Rightarrow> Inl e
      | Inr (u, store') \<Rightarrow> ingest_all embedder dimension store' rest)"

text \<open>
  Modelled from the spec: the invariant that ingestion gives the store, ids in the order
  of insertion; the store is not in the sources.
\<close>

definition store_invariant :: "document_store \<Rightarrow> bool" where
  "store_invariant store = (map unit_id (units store) = [0..<length (units store)])"

text \<open>
  Modelled from the spec: the ranking inside \<open>retrieve\<close> of section 4.2, missing from the
  sources: the scored units sorted descending by score, ties broken by insertion order
  (the earlier-ingested unit wins). The units are inserted from the last ingested to the
  first, each one in front of the first entry whose score is not higher.
\<close>

fun insert_ranked :: "store_unit \<times> real \<Rightarrow> retrieval_result \<Rightarrow> retrieval_result" where
  "insert_ranked x [] = [x]"
| "insert_ranked x (y # ys) =
     (if snd y \<le> snd x then x # y # ys else y # insert_ranked x ys)"

fun rank :: "retrieval_result \<Rightarrow> retrieval_result" where
  "rank [] = []"
| "rank (x # xs) = insert_ranked x (rank xs)"

text \<open>
  Modelled from the spec: \<open>retrieve(query, k) -> RetrievalResult\<close> of section 4.2, missing
  from the sources. It fails with \<open>EmptyStoreError\<close> if the store has zero units;
  otherwise it scores every stored unit against the query and returns the top \<open>k\<close>. The
  similarity (cosine or another) is a parameter.
\<close>

definition retrieve ::
  "(query \<Rightarrow> store_unit \<Rightarrow> real) \<Rightarrow> document_store \<Rightarrow> query \<Rightarrow> nat
     \<Rightarrow> error + retrieval_result" where
  "retrieve similarity store q k =
     (if units store = [] then Inl EmptyStoreError
      else Inr (take k (rank (map (\<lambda>u. (u, similarity q u)) (units store)))))"

text \<open>
  The order the result is expected in: a higher score first, and of two equal scores the
  unit ingested earlier first.
\<close>

definition ranks_before :: "store_unit \<times> real \<Rightarrow> store_unit \<times> real \<Rightarrow> bool" where
  "ranks_before a b =
     (snd b < snd a \<or> (snd b = snd a \<and> unit_id (fst a) < unit_id (fst b)))"

text \<open>Stub providers and a small store for concrete runs.\<close>

definition constant_embedder :: "string \<Rightarrow> vector option" where
  "constant_embedder doc_text = Some [1, 0]"

definition length_similarity :: "query \<Rightarrow> store_unit \<Rightarrow> real" where
  "length_similarity q u = real (length (unit_text u))"

definition three_documents :: document_store where
  "three_documents =
     \<lparr>units = [\<lparr>unit_id = 0, unit_text = ''a'', unit_embedding = Some [1, 0]\<rparr>,
               \<lparr>unit_id = 1, unit_text = ''bb'', unit_embedding = Some [1, 0]\<rparr>,
               \<lparr>unit_id = 2, unit_text = ''cc'', unit_embedding = Some [1, 0]\<rparr>]\<rparr>"

definition growing_up :: query where
  "growing_up = \<lparr>query_text = ''What did he do growing up?'', query_embedding = None\<rparr>"

section \<open>Properties of the notebook code\<close>

lemma extract_loop_acc:
  "extract_loop Document ts documents printed =
     (documents @ constructed_documents Document ts,
      printed @ replicate (length (failed_transcripts Document ts)) ''Failed to create document'')"
proof (induction ts arbitrary: documents printed)
  case Nil
  show ?case by (simp add: constructed_documents_def failed_transcripts_def)
next
  case (Cons t ts)
  show ?case
  proof (cases "Document t")
    case (Inl e)
    then show ?thesis
      using Cons.IH [of documents "printed @ [''Failed to create document'']"]
      by (simp add: constructed_documents_def failed_transcripts_def replicate_app_Cons_same)
  next
    case (Inr doc)
    then show ?thesis
      using Cons.IH [of "documents @ [doc]" printed]
      by (simp add: constructed_documents_def failed_transcripts_def)
  qed
qed

text \<open>
  C9. \<open>extract_and_create_documents\<close> returns the documents of exactly the transcripts
  whose construction succeeds, in the order of the input; each construction that raises
  is caught, prints one failure line, and the loop goes on: every transcript is either
  in the result or accounted for by a printed line, also those after a failure.
\<close>

theorem extract_and_create_documents_successes:
  "fst (extract_and_create_documents Document transcripts) =
     constructed_documents Document transcripts
   \<and> snd (extract_and_create_documents Document transcripts) =
     replicate (length (failed_transcripts Document transcripts)) ''Failed to create document''
   \<and> fst (extract_and_create_documents Document (before @ t # after)) =
     constructed_documents Document before
       @ (case Document t of Inr doc \<Rightarrow> [doc] | Inl e \<Rightarrow> [])
       @ constructed_documents Document after
   \<and> length (fst (extract_and_create_documents Document transcripts))
       + length (snd (extract_and_create_documents Document transcripts)) = length transcripts"
proof -
  have len: "length (constructed_documents Document ts) + length (failed_transcripts Document ts)
      = length ts" for ts
    by (induction ts) (auto simp: constructed_documents_def failed_transcripts_def split: sum.splits)
  have app: "constructed_documents Document (before @ t # after) =
      constructed_documents Document before
        @ (case Document t of Inr doc \<Rightarrow> [doc] | Inl e \<Rightarrow> [])
        @ constructed_documents Document after"
    by (simp add: constructed_documents_def)
  show ?thesis
    using len [of transcripts] app
    by (simp add: extract_and_create_documents_def extract_loop_acc)
qed

lemma extract_and_create_documents_example:
  "extract_and_create_documents (\<lambda>t. if t = [] then Inl () else Inr (length t))
     [''ab'', '''', ''cde'', '''', ''f''] =
   ([2, 3, 1], [''Failed to create document'', ''Failed to create document''])"
  by (simp add: extract_and_create_documents_def)

lemma run_queries_llm: "llm (run_queries get_response queries nb) = llm nb"
  and run_queries_retriever: "retriever (run_queries get_response queries nb) = retriever nb"
  unfolding run_queries_def
  by (induction queries arbitrary: nb) (simp_all add: get_response_cell_def)

lemma join_str_rendered: "join_str sep (x # xs) = x @ concat (map (\<lambda>y. sep @ y) xs)"
  by (induction xs arbitrary: x) simp_all

text \<open>
  C10. Appending the user instructions changes the \<open>system_prompt\<close> of the language
  model object itself. The new prompt is the old one followed by the formatted
  instructions: the fixed sentence, then the list as Python prints it, that is an
  opening bracket, the \<open>repr\<close> of the first instruction, a comma, a space and the
  \<open>repr\<close> of each further instruction, a closing bracket (\<open>[]\<close> for no instruction),
  then a full stop. \<open>model\<close> and \<open>temperature\<close> keep their values, and the object stays
  changed: any number of later \<open>get_response\<close> cells leave it as it is, and each of
  them passes the object with the appended prompt.
\<close>

theorem update_system_prompt_persists:
  "system_prompt (llm (update_system_prompt repr user_instructions nb)) =
     system_prompt (llm nb) @ ''Please comply to the following instructions ''
       @ (case user_instructions of
            [] \<Rightarrow> ''[]''
          | x # xs \<Rightarrow> ''['' @ repr x @ concat (map (\<lambda>y. '', '' @ repr y) xs) @ '']'')
       @ ''.''
   \<and> system_prompt (llm (update_system_prompt repr [a, b, c] nb)) =
     system_prompt (llm nb) @ ''Please comply to the following instructions [''
       @ repr a @ '', '' @ repr b @ '', '' @ repr c @ ''].''
   \<and> model (llm (update_system_prompt repr user_instructions nb)) = model (llm nb)
   \<and> temperature (llm (update_system_prompt repr user_instructions nb)) = temperature (llm nb)
   \<and> retriever (update_system_prompt repr user_instructions nb) = retriever nb
   \<and> llm (run_queries get_response queries (update_system_prompt repr user_instructions nb)) =
       llm (update_system_prompt repr user_instructions nb)
   \<and> llm_response (run_queries get_response (queries @ [q])
         (update_system_prompt repr user_instructions nb)) =
       Some (get_response q (retriever nb)
         ((llm nb)\<lparr>system_prompt :=
            system_prompt (llm nb) @ ''Please comply to the following instructions ''
              @ (case user_instructions of
                   [] \<Rightarrow> ''[]''
                 | x # xs \<Rightarrow> ''['' @ repr x @ concat (map (\<lambda>y. '', '' @ repr y) xs) @ '']'')
              @ ''.''\<rparr>))"
proof -
  let ?nb = "update_system_prompt repr user_instructions nb"
  have rendered: "py_list_str repr user_instructions =
      (case user_instructions of
         [] \<Rightarrow> ''[]''
       | x # xs \<Rightarrow> ''['' @ repr x @ concat (map (\<lambda>y. '', '' @ repr y) xs) @ '']'')"
    by (cases user_instructions) (simp_all add: py_list_str_def join_str_rendered comp_def)
  have three: "system_prompt (llm (update_system_prompt repr [a, b, c] nb)) =
      system_prompt (llm nb) @ ''Please comply to the following instructions [''
        @ repr a @ '', '' @ repr b @ '', '' @ repr c @ ''].''"
    by (simp add: update_system_prompt_def format_instructions_def py_list_str_def)
  have last: "llm_response (run_queries get_response (queries @ [q]) ?nb) =
      Some (get_response q (retriever ?nb) (llm ?nb))"
    using run_queries_llm [of get_response queries ?nb]
      run_queries_retriever [of get_response queries ?nb]
    by (simp add: run_queries_def get_response_cell_def)
  have prompt: "system_prompt (llm ?nb) =
      system_prompt (llm nb) @ ''Please comply to the following instructions ''
        @ py_list_str repr user_instructions @ ''.''"
    by (simp add: update_system_prompt_def format_instructions_def)
  have obj: "llm ?nb = (llm nb)\<lparr>system_prompt :=
      system_prompt (llm nb) @ ''Please comply to the following instructions ''
        @ py_list_str repr user_instructions @ ''.''\<rparr>"
    by (simp add: update_system_prompt_def format_instructions_def)
  have frame: "model (llm ?nb) = model (llm nb)" "temperature (llm ?nb) = temperature (llm nb)"
    "retriever ?nb = retriever nb"
    by (simp_all add: update_system_prompt_def)
  show ?thesis
    unfolding rendered [symmetric]
    using three last prompt obj frame run_queries_llm [of get_response queries ?nb]
    by simp
qed

lemma update_system_prompt_example:
  "system_prompt (llm (update_system_prompt repr_plain
       [''Keep the response concise, preferably under the 100 word limit.'', ''Be kind.'']
       \<lparr>llm = \<lparr>model = ''gpt-4o-mini'', temperature = 4 / 10, system_prompt = ''Be polite.''\<rparr>,
        retriever = (), llm_response = (None :: unit option)\<rparr>)) =
   ''Be polite.Please comply to the following instructions [''
     @ [CHR 0x27] @ ''Keep the response concise, preferably under the 100 word limit.''
     @ [CHR 0x27] @ '', '' @ [CHR 0x27] @ ''Be kind.'' @ [CHR 0x27] @ ''].''"
  by (simp add: update_system_prompt_def format_instructions_def py_list_str_def repr_plain_def)

section \<open>Properties of the retriever\<close>

lemma store_invariant_empty: "store_invariant empty_store"
  by (simp add: store_invariant_def empty_store_def)

lemma store_invariant_ingest:
  "store_invariant store \<Longrightarrow> ingest embedder dimension store doc_text = Inr (u, store')
     \<Longrightarrow> store_invariant store' \<and> units store' = units store @ [u]"
  by (auto simp: store_invariant_def ingest_def Let_def split: option.splits if_splits)

lemma store_invariant_ingest_all:
  "store_invariant store \<Longrightarrow> ingest_all embedder dimension store docs = Inr store'
     \<Longrightarrow> store_invariant store'"
proof (induction docs arbitrary: store)
  case Nil
  then show ?case by simp
next
  case (Cons d docs)
  then show ?case
    by (auto split: sum.splits dest: store_invariant_ingest)
qed

lemma ingest_three_documents:
  "ingest_all constant_embedder 2 empty_store [''a'', ''bb'', ''cc''] = Inr three_documents"
  by (simp add: ingest_def constant_embedder_def empty_store_def three_documents_def Let_def)

lemma set_insert_ranked: "set (insert_ranked x ys) = insert x (set ys)"
  by (induction ys) auto

lemma length_insert_ranked: "length (insert_ranked x ys) = Suc (length ys)"
  by (induction ys) auto

lemma set_rank: "set (rank xs) = set xs"
  by (induction xs) (auto simp: set_insert_ranked)

lemma length_rank: "length (rank xs) = length xs"
  by (induction xs) (auto simp: length_insert_ranked)

lemma distinct_insert_ranked:
  "distinct (map f (insert_ranked x ys)) = (f x \<notin> f ` set ys \<and> distinct (map f ys))"
  by (induction ys) (auto simp: set_insert_ranked)

lemma distinct_rank: "distinct (map f (rank xs)) = distinct (map f xs)"
  by (induction xs) (auto simp: distinct_insert_ranked set_rank)

text \<open>
  Inserting a unit that was ingested before every unit of a ranked list keeps the list
  ranked: it is placed in front of the units with the same score.
\<close>

lemma sorted_insert_ranked:
  assumes "sorted_wrt ranks_before ys"
    and "\<forall>y \<in> set ys. unit_id (fst x) < unit_id (fst y)"
  shows "sorted_wrt ranks_before (insert_ranked x ys)"
  using assms
proof (induction ys)
  case Nil
  show ?case by simp
next
  case (Cons y ys)
  show ?case
  proof (cases "snd y \<le> snd x")
    case True
    have "ranks_before x z" if "z \<in> set (y # ys)" for z
    proof -
      have "snd z \<le> snd y"
        using that Cons.prems(1) by (auto simp: ranks_before_def)
      moreover have "unit_id (fst x) < unit_id (fst z)"
        using that Cons.prems(2) by auto
      ultimately show ?thesis
        using True by (auto simp: ranks_before_def)
    qed
    then show ?thesis
      using True Cons.prems(1) by simp
  next
    case False
    then have "ranks_before y x"
      by (simp add: ranks_before_def)
    then show ?thesis
      using False Cons by (auto simp: set_insert_ranked)
  qed
qed

lemma sorted_rank:
  "sorted_wrt (\<lambda>a b. unit_id (fst a) < unit_id (fst b)) xs \<Longrightarrow> sorted_wrt ranks_before (rank xs)"
  by (induction xs) (auto simp: sorted_insert_ranked set_rank)

lemma sorted_wrt_take_drop:
  "sorted_wrt R xs \<Longrightarrow> a \<in> set (take k xs) \<Longrightarrow> b \<in> set (drop k xs) \<Longrightarrow> R a b"
  using sorted_wrt_append [of R "take k xs" "drop k xs"] by simp

lemma sorted_wrt_take_prefix: "sorted_wrt R xs \<Longrightarrow> sorted_wrt R (take k xs)"
  using sorted_wrt_append [of R "take k xs" "drop k xs"] by simp

lemma store_invariant_ids:
  assumes "store_invariant store"
  shows "sorted_wrt (\<lambda>a b. unit_id (fst a) < unit_id (fst b))
           (map (\<lambda>u. (u, similarity q u)) (units store))"
    and "distinct (map unit_id (units store))"
proof -
  have "sorted_wrt (<) (map unit_id (units store))"
    using assms by (simp add: store_invariant_def)
  then show "sorted_wrt (\<lambda>a b. unit_id (fst a) < unit_id (fst b))
           (map (\<lambda>u. (u, similarity q u)) (units store))"
    by (simp add: sorted_wrt_map)
  show "distinct (map unit_id (units store))"
    using assms by (simp add: store_invariant_def)
qed

text \<open>
  C3. On a store built by ingestion, for \<open>1 \<le> k \<le>\<close> the size of the store,
  \<open>retrieve\<close> returns exactly \<open>k\<close> results; their scores are non-increasing; of two
  results with equal scores the unit ingested earlier comes first; no unit id occurs
  twice. The results are units of the store with their own scores, and they are the top
  \<open>k\<close>: a unit left out scores lower than every result, or equal to it and was ingested
  later.
\<close>

theorem retrieve_top_k:
  assumes built: "ingest_all embedder dimension empty_store docs = Inr store"
    and k: "1 \<le> k" "k \<le> length (units store)"
  shows "\<exists>r. retrieve similarity store q k = Inr r
    \<and> length r = k
    \<and> sorted_wrt (\<lambda>a b. snd b \<le> snd a) r
    \<and> sorted_wrt (\<lambda>a b. snd a = snd b \<longrightarrow> unit_id (fst a) < unit_id (fst b)) r
    \<and> distinct (map (\<lambda>a. unit_id (fst a)) r)
    \<and> (\<forall>a \<in> set r. fst a \<in> set (units store) \<and> snd a = similarity q (fst a))
    \<and> (\<forall>u \<in> set (units store). u \<notin> fst ` set r \<longrightarrow>
          (\<forall>a \<in> set r. similarity q u < snd a
             \<or> (similarity q u = snd a \<and> unit_id (fst a) < unit_id u)))"
proof -
  let ?scored = "map (\<lambda>u. (u, similarity q u)) (units store)"
  let ?r = "take k (rank ?scored)"
  have inv: "store_invariant store"
    using store_invariant_empty built by (rule store_invariant_ingest_all)
  have ne: "units store \<noteq> []"
    using k by auto
  have ret: "retrieve similarity store q k = Inr ?r"
    using ne by (simp add: retrieve_def)
  have len: "length ?r = k"
    using k by (simp add: length_rank)
  have ranked: "sorted_wrt ranks_before (rank ?scored)"
    using store_invariant_ids(1) [OF inv] by (rule sorted_rank)
  have sorted: "sorted_wrt ranks_before ?r"
    using ranked by (rule sorted_wrt_take_prefix)
  have desc: "sorted_wrt (\<lambda>a b. snd b \<le> snd a) ?r"
    by (rule sorted_wrt_mono_rel [OF _ sorted]) (auto simp: ranks_before_def)
  have ties: "sorted_wrt (\<lambda>a b. snd a = snd b \<longrightarrow> unit_id (fst a) < unit_id (fst b)) ?r"
    by (rule sorted_wrt_mono_rel [OF _ sorted]) (auto simp: ranks_before_def)
  have "distinct (map (\<lambda>a. unit_id (fst a)) (rank ?scored))"
    using store_invariant_ids(2) [OF inv] by (simp add: distinct_rank comp_def)
  then have dist: "distinct (map (\<lambda>a. unit_id (fst a)) ?r)"
    by (simp add: distinct_take take_map [symmetric] del: take_map)
  have mem: "fst a \<in> set (units store) \<and> snd a = similarity q (fst a)" if "a \<in> set ?r" for a
  proof -
    have "a \<in> set (rank ?scored)"
      using that by (rule in_set_takeD)
    then show ?thesis
      by (auto simp: set_rank)
  qed
  have top: "similarity q u < snd a \<or> (similarity q u = snd a \<and> unit_id (fst a) < unit_id u)"
    if u: "u \<in> set (units store)" "u \<notin> fst ` set ?r" and a: "a \<in> set ?r" for u a
  proof -
    have "(u, similarity q u) \<in> set (rank ?scored)"
      using u(1) by (simp add: set_rank)
    then have "(u, similarity q u) \<in> set ?r \<union> set (drop k (rank ?scored))"
      using set_append [of ?r "drop k (rank ?scored)"] by simp
    moreover have "(u, similarity q u) \<notin> set ?r"
      using u(2) by force
    ultimately have "(u, similarity q u) \<in> set (drop k (rank ?scored))"
      by blast
    with ranked a have "ranks_before a (u, similarity q u)"
      by (rule sorted_wrt_take_drop)
    then show ?thesis
      by (simp add: ranks_before_def)
  qed
  show ?thesis
    using ret len desc ties dist mem top by blast
qed

theorem retrieve_top_k_witness:
  "ingest_all constant_embedder 2 empty_store [''a'', ''bb'', ''cc''] = Inr three_documents
   \<and> (1::nat) \<le> 2 \<and> 2 \<le> length (units three_documents)
   \<and> retrieve length_similarity three_documents growing_up 2 =
       Inr [(\<lparr>unit_id = 1, unit_text = ''bb'', unit_embedding = Some [1, 0]\<rparr>, 2),
            (\<lparr>unit_id = 2, unit_text = ''cc'', unit_embedding = Some [1, 0]\<rparr>, 2)]"
proof -
  have built: "ingest_all constant_embedder 2 empty_store [''a'', ''bb'', ''cc''] = Inr three_documents"
    by (simp add: ingest_def constant_embedder_def empty_store_def three_documents_def Let_def)
  have k: "(1::nat) \<le> 2" "2 \<le> length (units three_documents)"
    by (simp_all add: three_documents_def)
  show ?thesis
    using built k retrieve_top_k [OF built k, of length_similarity growing_up]
    by (simp add: retrieve_def three_documents_def length_similarity_def)
qed

text \<open>
  C4. On a store with zero units \<open>retrieve\<close> fails with \<open>EmptyStoreError\<close>, for every
  query and every \<open>k\<close>: it returns no result, empty or partial.
\<close>

theorem retrieve_empty_store:
  "units store = [] \<Longrightarrow> retrieve similarity store q k = Inl EmptyStoreError"
  by (simp add: retrieve_def)

theorem retrieve_empty_store_witness:
  "units empty_store = []
   \<and> retrieve length_similarity empty_store growing_up 1 = Inl EmptyStoreError"
  using retrieve_empty_store [of empty_store length_similarity growing_up 1]
  by (simp add: empty_store_def)

end
